theory Spec2Isabelle
  imports Main "HOL-Library.Sublist"
begin

section \<open>The image poster of \<open>src/index.js\<close>\<close>

text \<open>
  The program is one Node.js module.  Its two module-level variables
  (\<open>imageFiles\<close>, \<open>currentIndex\<close>) and everything it touches outside the process
  (the file system, the remote HTTP API, the console) are made explicit: every function
  takes the state and returns the new one, and every \<open>throw\<close> is a value \<open>Inl error\<close>.
  Timer ticks are modelled one after the other; overlapping ticks are not modelled.
\<close>

subsection \<open>JavaScript values and errors\<close>

datatype js_value =
    Undefined
  | Null
  | Str string
  | Num nat
  | Obj "(string \<times> js_value) list"

text \<open>
  An error object: its \<open>code\<close> (as set by Node's \<open>fs\<close> module), its \<open>message\<close>, and
  the \<open>response\<close> (status and body) that axios attaches when the server answered.
\<close>

datatype js_error =
  JsError (code: string) (message: string) (response: "(nat \<times> js_value) option")

definition type_error :: "string \<Rightarrow> js_error" where
  "type_error msg = JsError [] msg None"

text \<open>Reading property \<open>key\<close> of a value: \<open>null\<close> and \<open>undefined\<close> throw a TypeError,
  an object without the key gives \<open>undefined\<close>, and so do strings and numbers for the
  one key the program reads (\<open>id\<close>).\<close>

fun get_member :: "js_value \<Rightarrow> string \<Rightarrow> js_error + js_value" where
  "get_member Undefined key =
     Inl (type_error (''Cannot read properties of undefined (reading '' @ key @ '')''))"
| "get_member Null key =
     Inl (type_error (''Cannot read properties of null (reading '' @ key @ '')''))"
| "get_member (Obj kvs) key = (case map_of kvs key of None \<Rightarrow> Inr Undefined | Some v \<Rightarrow> Inr v)"
| "get_member (Str s) key = Inr Undefined"
| "get_member (Num n) key = Inr Undefined"

fun show_nat :: "nat \<Rightarrow> string" where
  "show_nat n =
     (if n < 10 then [char_of (48 + n)] else show_nat (n div 10) @ [char_of (48 + n mod 10)])"

declare show_nat.simps [simp del]

text \<open>What a template literal prints for a value (\<open>String(v)\<close>).\<close>

fun to_string :: "js_value \<Rightarrow> string" where
  "to_string Undefined = ''undefined''"
| "to_string Null = ''null''"
| "to_string (Str s) = s"
| "to_string (Num n) = show_nat n"
| "to_string (Obj kvs) = ''[object Object]''"

text \<open>\<open>xs.join(sep)\<close> on an array of strings.\<close>

fun join :: "string \<Rightarrow> string list \<Rightarrow> string" where
  "join sep [] = []"
| "join sep [x] = x"
| "join sep (x # y # ys) = x @ sep @ join sep (y # ys)"

subsection \<open>Paths\<close>

type_synonym path = string

text \<open>
  \<open>path.join\<close> and \<open>path.basename\<close> of Node on POSIX.  Node also normalises the joined
  path (\<open>./images/a.jpg\<close> becomes \<open>images/a.jpg\<close>); both spellings name the same file,
  and the model keeps the unnormalised one.
\<close>

definition path_join :: "path \<Rightarrow> string \<Rightarrow> path" where
  "path_join dir name = dir @ ''/'' @ name"

definition basename :: "path \<Rightarrow> string" where
  "basename p = rev (takeWhile (\<lambda>c. c \<noteq> CHR ''/'') (rev p))"

subsection \<open>The file filter of \<open>loadImageFiles\<close>\<close>

text \<open>
  \<^verbatim>\<open>/\.(jpg|jpeg|png|gif)$/i.test(file)\<close>.
  With the \<open>i\<close> flag both the pattern character and the input character are
  canonicalised (upper-cased) before they are compared; a character outside ASCII never
  canonicalises to an ASCII letter.
\<close>

definition canonicalize :: "char \<Rightarrow> char" where
  "canonicalize c =
     (let n = (of_char c :: nat) in if 97 \<le> n \<and> n \<le> 122 then char_of (n - 32) else c)"

text \<open>One alternative of the group followed by \<open>$\<close>: the alternative must consume the
  whole rest of the name.\<close>

definition match_alt :: "string \<Rightarrow> string \<Rightarrow> bool" where
  "match_alt alt rest = (map canonicalize rest = map canonicalize alt)"

text \<open>The pattern tried at one start position: a literal dot, then the alternatives in
  their order.\<close>

fun regex_at :: "string \<Rightarrow> bool" where
  "regex_at [] = False"
| "regex_at (c # rest) =
     (c = CHR ''.'' \<and>
      (match_alt ''jpg'' rest \<or> match_alt ''jpeg'' rest \<or>
       match_alt ''png'' rest \<or> match_alt ''gif'' rest))"

text \<open>\<open>test\<close> searches: it tries every start position from the left.\<close>

fun regex_test :: "string \<Rightarrow> bool" where
  "regex_test [] = regex_at []"
| "regex_test (c # cs) = (regex_at (c # cs) \<or> regex_test cs)"




subsection \<open>The world outside the process\<close>

datatype level = Info | Warn | Error

datatype node = File string | Dir

text \<open>The calls of Node's \<open>fs\<close> module the program makes, and the two requests it sends
  with axios (URL; file name and content, or caption and media id; \<open>Authorization\<close>
  header).\<close>

datatype fs_call =
    Access path
  | Mkdir path
  | Readdir path
  | ReadFile path
  | Rename path path

datatype request =
    PostMedia string string string string
  | PostStatus string string js_value string

text \<open>
  Everything the process does to the outside, in the order it happens: a console line
  (the timestamp that \<open>log\<close> puts in front is real time and is left out), a file-system
  call with the error it failed with, if any, and a request with the response body or the
  error axios threw.
\<close>

datatype event =
    Console level string
  | Fs fs_call "js_error option"
  | Http request "js_error + js_value"

text \<open>
  The file system is a list of paths with what is there, in the order a directory
  listing reports them.  Any call may also fail for a reason the list does not show
  (permissions, a full or a different device, an I/O error): \<open>fs_fault\<close> says, for the
  call made at time \<open>clock\<close>, whether it fails and how.  \<open>http_reply\<close> is the remote
  server and the network.
\<close>

record world =
  fs :: "(path \<times> node) list"
  clock :: nat
  fs_fault :: "nat \<Rightarrow> fs_call \<Rightarrow> js_error option"
  http_reply :: "nat \<Rightarrow> request \<Rightarrow> js_error + js_value"
  trace :: "event list"

definition fs_error :: "string \<Rightarrow> path \<Rightarrow> js_error" where
  "fs_error c p = JsError c (c @ '': '' @ p) None"

text \<open>A call returns: the clock advances and the call is on the trace.\<close>

definition fs_return :: "fs_call \<Rightarrow> js_error + 'a \<Rightarrow> world \<Rightarrow> (js_error + 'a) \<times> world" where
  "fs_return c r w =
     (r, w\<lparr>clock := Suc (clock w),
           trace := trace w @ [Fs c (case r of Inl e \<Rightarrow> Some e | Inr v \<Rightarrow> None)]\<rparr>)"

fun strip_prefix :: "string \<Rightarrow> string \<Rightarrow> string option" where
  "strip_prefix [] ys = Some ys"
| "strip_prefix (x # xs) [] = None"
| "strip_prefix (x # xs) (y # ys) = (if x = y then strip_prefix xs ys else None)"

text \<open>The name under which path \<open>p\<close> is listed in directory \<open>dir\<close>, if it lies directly
  in it.\<close>

definition child_name :: "path \<Rightarrow> path \<Rightarrow> string option" where
  "child_name dir p =
     (case strip_prefix (dir @ ''/'') p of
        None \<Rightarrow> None
      | Some r \<Rightarrow> if r = [] \<or> CHR ''/'' \<in> set r then None else Some r)"

definition entries :: "path \<Rightarrow> (path \<times> node) list \<Rightarrow> string list" where
  "entries dir files = List.map_filter (\<lambda>(p, n). child_name dir p) files"

definition fs_access :: "path \<Rightarrow> world \<Rightarrow> (js_error + unit) \<times> world" where
  "fs_access p w =
     (case fs_fault w (clock w) (Access p) of
        Some e \<Rightarrow> fs_return (Access p) (Inl e) w
      | None \<Rightarrow>
          (case map_of (fs w) p of
             None \<Rightarrow> fs_return (Access p) (Inl (fs_error ''ENOENT'' p)) w
           | Some n \<Rightarrow> fs_return (Access p) (Inr ()) w))"

text \<open>\<open>fs.mkdir(p, { recursive: true })\<close>: an existing directory is not an error.\<close>

definition fs_mkdir :: "path \<Rightarrow> world \<Rightarrow> (js_error + unit) \<times> world" where
  "fs_mkdir p w =
     (case fs_fault w (clock w) (Mkdir p) of
        Some e \<Rightarrow> fs_return (Mkdir p) (Inl e) w
      | None \<Rightarrow>
          (case map_of (fs w) p of
             None \<Rightarrow> fs_return (Mkdir p) (Inr ()) (w\<lparr>fs := fs w @ [(p, Dir)]\<rparr>)
           | Some Dir \<Rightarrow> fs_return (Mkdir p) (Inr ()) w
           | Some (File c) \<Rightarrow> fs_return (Mkdir p) (Inl (fs_error ''EEXIST'' p)) w))"

definition fs_readdir :: "path \<Rightarrow> world \<Rightarrow> (js_error + string list) \<times> world" where
  "fs_readdir p w =
     (case fs_fault w (clock w) (Readdir p) of
        Some e \<Rightarrow> fs_return (Readdir p) (Inl e) w
      | None \<Rightarrow>
          (case map_of (fs w) p of
             None \<Rightarrow> fs_return (Readdir p) (Inl (fs_error ''ENOENT'' p)) w
           | Some (File c) \<Rightarrow> fs_return (Readdir p) (Inl (fs_error ''ENOTDIR'' p)) w
           | Some Dir \<Rightarrow> fs_return (Readdir p) (Inr (entries p (fs w))) w))"

definition fs_readFile :: "path \<Rightarrow> world \<Rightarrow> (js_error + string) \<times> world" where
  "fs_readFile p w =
     (case fs_fault w (clock w) (ReadFile p) of
        Some e \<Rightarrow> fs_return (ReadFile p) (Inl e) w
      | None \<Rightarrow>
          (case map_of (fs w) p of
             None \<Rightarrow> fs_return (ReadFile p) (Inl (fs_error ''ENOENT'' p)) w
           | Some Dir \<Rightarrow> fs_return (ReadFile p) (Inl (fs_error ''EISDIR'' p)) w
           | Some (File c) \<Rightarrow> fs_return (ReadFile p) (Inr c) w))"

text \<open>\<open>fs.rename\<close>: what was at the source is at the destination afterwards, replacing
  what was there; a failed rename changes nothing.  (Entries below a renamed directory
  are not followed.)\<close>

definition fs_rename :: "path \<Rightarrow> path \<Rightarrow> world \<Rightarrow> (js_error + unit) \<times> world" where
  "fs_rename src dst w =
     (case fs_fault w (clock w) (Rename src dst) of
        Some e \<Rightarrow> fs_return (Rename src dst) (Inl e) w
      | None \<Rightarrow>
          (case map_of (fs w) src of
             None \<Rightarrow> fs_return (Rename src dst) (Inl (fs_error ''ENOENT'' src)) w
           | Some n \<Rightarrow>
               fs_return (Rename src dst) (Inr ())
                 (w\<lparr>fs := filter (\<lambda>(p, m). p \<noteq> src \<and> p \<noteq> dst) (fs w) @ [(dst, n)]\<rparr>)))"

text \<open>\<open>axios.post\<close>: the result is the \<open>data\<close> of the response, or the error thrown (no
  connection, or a status outside 2xx).\<close>

definition http_post :: "request \<Rightarrow> world \<Rightarrow> (js_error + js_value) \<times> world" where
  "http_post req w =
     (http_reply w (clock w) req,
      w\<lparr>clock := Suc (clock w), trace := trace w @ [Http req (http_reply w (clock w) req)]\<rparr>)"

subsection \<open>Configuration and program state\<close>

text \<open>The \<open>config\<close> object.  An environment variable that is not set makes
  \<open>instanceUrl\<close> or \<open>accessToken\<close> print as \<open>undefined\<close> inside the URL and the header;
  the fields hold what is printed.\<close>

record config =
  instanceUrl :: string
  accessToken :: string
  imageFolder :: path
  postedFolder :: path
  statusText :: string
  postInterval :: nat

record state =
  imageFiles :: "string list"
  currentIndex :: nat
  world :: world

definition log :: "string \<Rightarrow> level \<Rightarrow> world \<Rightarrow> world" where
  "log msg lvl w = w\<lparr>trace := trace w @ [Console lvl msg]\<rparr>"

definition slog :: "string \<Rightarrow> level \<Rightarrow> state \<Rightarrow> state" where
  "slog msg lvl s = s\<lparr>world := log msg lvl (world s)\<rparr>"

subsection \<open>The functions of \<open>src/index.js\<close>\<close>

definition ensureDirectoryExists :: "path \<Rightarrow> world \<Rightarrow> (js_error + unit) \<times> world" where
  "ensureDirectoryExists directory w =
     (case fs_access directory w of
        (Inr u, w1) \<Rightarrow> (Inr (), w1)
      | (Inl error, w1) \<Rightarrow>
          if code error = ''ENOENT''
          then fs_mkdir directory (log (''Creating directory: '' @ directory) Info w1)
          else (Inl error, w1))"

text \<open>The body of the \<open>try\<close> block of \<open>loadImageFiles\<close>.\<close>

definition loadImageFiles_try :: "config \<Rightarrow> state \<Rightarrow> (js_error + unit) \<times> state" where
  "loadImageFiles_try cfg s =
     (let w0 = log ''Starting to load image files...'' Info (world s) in
      case ensureDirectoryExists (imageFolder cfg) w0 of
        (Inl error, w1) \<Rightarrow> (Inl error, s\<lparr>world := w1\<rparr>)
      | (Inr u, w1) \<Rightarrow>
      (case ensureDirectoryExists (postedFolder cfg) w1 of
        (Inl error, w2) \<Rightarrow> (Inl error, s\<lparr>world := w2\<rparr>)
      | (Inr u, w2) \<Rightarrow>
      (case fs_readdir (imageFolder cfg) w2 of
        (Inl error, w3) \<Rightarrow> (Inl error, s\<lparr>world := w3\<rparr>)
      | (Inr files, w3) \<Rightarrow>
          let s1 = s\<lparr>imageFiles := filter regex_test files, world := w3\<rparr>;
              s2 = slog (''Loaded '' @ show_nat (length (imageFiles s1)) @ '' images from ''
                         @ imageFolder cfg) Info s1;
              s3 = slog (''Image files: '' @ join '', '' (imageFiles s2)) Info s2
          in (Inr (), s3))))"

definition loadImageFiles :: "config \<Rightarrow> state \<Rightarrow> (js_error + unit) \<times> state" where
  "loadImageFiles cfg s =
     (case loadImageFiles_try cfg s of
        (Inr u, s') \<Rightarrow> (Inr (), s')
      | (Inl error, s') \<Rightarrow>
          (Inr (), slog (''Error reading image folder: '' @ message error) Error s'))"

definition movePostedImage :: "config \<Rightarrow> path \<Rightarrow> world \<Rightarrow> (js_error + unit) \<times> world" where
  "movePostedImage cfg imagePath w =
     (let fileName = basename imagePath;
          destinationPath = path_join (postedFolder cfg) fileName
      in case fs_rename imagePath destinationPath w of
           (Inr u, w1) \<Rightarrow>
             (Inr (), log (''Moved '' @ fileName @ '' to '' @ postedFolder cfg) Info w1)
         | (Inl error, w1) \<Rightarrow>
             (Inr (), log (''Error moving file '' @ fileName @ '': '' @ message error) Error w1))"

text \<open>\<open>JSON.stringify\<close> of a response body, for the error log only; strings are printed
  without escapes.\<close>

definition quoted :: "string \<Rightarrow> string" where
  "quoted s = [CHR 0x22] @ s @ [CHR 0x22]"

fun stringify :: "js_value \<Rightarrow> string" where
  "stringify Undefined = ''undefined''"
| "stringify Null = ''null''"
| "stringify (Str s) = quoted s"
| "stringify (Num n) = show_nat n"
| "stringify (Obj kvs) =
     ''{'' @ join '','' (map (\<lambda>(k, v). quoted k @ '':'' @ stringify v)
                          (filter (\<lambda>(k, v). v \<noteq> Undefined) kvs)) @ ''}''"

text \<open>The second \<open>try\<close> block of \<open>postImageToFediverse\<close>: upload, read the media id,
  create the status, archive.\<close>

definition postImage_try ::
  "config \<Rightarrow> path \<Rightarrow> string \<Rightarrow> world \<Rightarrow> (js_error + unit) \<times> world" where
  "postImage_try cfg imagePath fileContent w =
     (let w0 = log ''Uploading media to Fediverse instance...'' Info w in
      case http_post (PostMedia (instanceUrl cfg @ ''/api/v1/media'') (basename imagePath)
                        fileContent (''Bearer '' @ accessToken cfg)) w0 of
        (Inl error, w1) \<Rightarrow> (Inl error, w1)
      | (Inr data, w1) \<Rightarrow>
      (case get_member data ''id'' of
        Inl error \<Rightarrow> (Inl error, w1)
      | Inr mediaId \<Rightarrow>
          let w2 = log (''Media uploaded successfully. Media ID: '' @ to_string mediaId) Info w1;
              w3 = log ''Posting status with media...'' Info w2
          in case http_post (PostStatus (instanceUrl cfg @ ''/api/v1/statuses'')
                               (statusText cfg) mediaId (''Bearer '' @ accessToken cfg)) w3 of
               (Inl error, w4) \<Rightarrow> (Inl error, w4)
             | (Inr reply, w4) \<Rightarrow>
                 movePostedImage cfg imagePath
                   (log (''Successfully posted '' @ basename imagePath) Info w4)))"

definition postImageToFediverse ::
  "config \<Rightarrow> path \<Rightarrow> world \<Rightarrow> (js_error + unit) \<times> world" where
  "postImageToFediverse cfg imagePath w =
     (let w0 = log (''Attempting to post image: '' @ imagePath) Info w in
      case fs_readFile imagePath w0 of
        (Inl error, w1) \<Rightarrow>
          (Inr (), log (''Error reading file '' @ imagePath @ '': '' @ message error) Error w1)
      | (Inr fileContent, w1) \<Rightarrow>
          let w2 = log ''File read successfully and added to form data'' Info w1 in
          case postImage_try cfg imagePath fileContent w2 of
            (Inr u, w3) \<Rightarrow> (Inr (), w3)
          | (Inl error, w3) \<Rightarrow>
              let w4 = log (''Error posting '' @ basename imagePath @ '': '' @ message error)
                         Error w3
              in case response error of
                   None \<Rightarrow> (Inr (), w4)
                 | Some (status, data) \<Rightarrow>
                     (Inr (),
                      log (''Response data: '' @ stringify data) Error
                        (log (''Response status: '' @ show_nat status) Error w4)))"

text \<open>\<open>imageFiles.splice(i, 1)\<close>: beyond the end nothing is removed.\<close>

definition splice1 :: "nat \<Rightarrow> 'a list \<Rightarrow> 'a list" where
  "splice1 i xs = take i xs @ drop (Suc i) xs"

text \<open>Lines 119 to 131 of \<open>postNextImage\<close>.  \<open>imageFiles[currentIndex]\<close> beyond the end
  is \<open>undefined\<close>, and \<open>path.join\<close> throws a TypeError on it.\<close>

definition postSelected :: "config \<Rightarrow> state \<Rightarrow> (js_error + unit) \<times> state" where
  "postSelected cfg s =
     (if currentIndex s < length (imageFiles s) then
        let imagePath = path_join (imageFolder cfg) (imageFiles s ! currentIndex s);
            s1 = slog (''Selected image: '' @ imagePath) Info s
        in case postImageToFediverse cfg imagePath (world s1) of
             (Inl error, w) \<Rightarrow> (Inl error, s1\<lparr>world := w\<rparr>)
           | (Inr u, w) \<Rightarrow>
               let s2 = s1\<lparr>imageFiles := splice1 (currentIndex s1) (imageFiles s1), world := w\<rparr>;
                   s3 = (if length (imageFiles s2) = 0 then s2\<lparr>currentIndex := 0\<rparr>
                         else s2\<lparr>currentIndex := currentIndex s2 mod length (imageFiles s2)\<rparr>)
               in (Inr (),
                   slog (''Updated current index to '' @ show_nat (currentIndex s3)
                         @ ''. Remaining images: '' @ show_nat (length (imageFiles s3))) Info s3)
      else (Inl (JsError ''ERR_INVALID_ARG_TYPE''
                   ''The path argument must be of type string. Received undefined'' None), s))"

definition postNextImage :: "config \<Rightarrow> state \<Rightarrow> (js_error + unit) \<times> state" where
  "postNextImage cfg s =
     (let s0 = slog ''Preparing to post next image...'' Info s in
      if length (imageFiles s0) = 0 then
        case loadImageFiles cfg (slog ''No images found. Reloading image files...'' Info s0) of
          (Inl error, s1) \<Rightarrow> (Inl error, s1)
        | (Inr u, s1) \<Rightarrow>
            if length (imageFiles s1) = 0
            then (Inr (), slog ''Still no images found. Skipping this post.'' Warn s1)
            else postSelected cfg s1
      else postSelected cfg s0)"

text \<open>The process: the module starts with an empty queue and cursor 0, \<open>start\<close> loads
  once, then \<open>postNextImage\<close> runs at every tick.  Between two calls the outside world
  may have changed in any way.  A call that threw would end the process.\<close>

inductive reach :: "config \<Rightarrow> state \<Rightarrow> bool" for cfg :: config where
  init: "reach cfg \<lparr>imageFiles = [], currentIndex = 0, world = w\<rparr>"
| start: "loadImageFiles cfg \<lparr>imageFiles = [], currentIndex = 0, world = w\<rparr> = (Inr (), s)
          \<Longrightarrow> reach cfg s"
| tick: "reach cfg s \<Longrightarrow> postNextImage cfg s = (Inr (), s') \<Longrightarrow> reach cfg s'"
| outside: "reach cfg s \<Longrightarrow> reach cfg (s\<lparr>world := w\<rparr>)"


text \<open>The state in which a tick that found the queue empty comes back from its reload
  (lines 111 and 112).\<close>

definition reloaded :: "config \<Rightarrow> state \<Rightarrow> state" where
  "reloaded cfg s =
     snd (loadImageFiles cfg
            (slog ''No images found. Reloading image files...'' Info
               (slog ''Preparing to post next image...'' Info s)))"

subsection \<open>Reading a trace\<close>

text \<open>The events added to the trace between two worlds.\<close>

definition emitted :: "world \<Rightarrow> world \<Rightarrow> event list" where
  "emitted w w' = drop (length (trace w)) (trace w')"

fun is_scan :: "event \<Rightarrow> bool" where
  "is_scan (Fs (Access p) out) = True"
| "is_scan (Fs (Mkdir p) out) = True"
| "is_scan (Fs (Readdir p) out) = True"
| "is_scan e = False"

text \<open>A file-system error of the scan: an existence check that fails for another reason
  than absence, a failed creation, a failed listing.\<close>

fun scan_failed :: "event \<Rightarrow> bool" where
  "scan_failed (Fs (Access p) (Some e)) = (code e \<noteq> ''ENOENT'')"
| "scan_failed (Fs (Mkdir p) (Some e)) = True"
| "scan_failed (Fs (Readdir p) (Some e)) = True"
| "scan_failed e = False"

fun is_read :: "event \<Rightarrow> bool" where
  "is_read (Fs (ReadFile p) out) = True"
| "is_read e = False"

fun read_failed :: "event \<Rightarrow> bool" where
  "read_failed (Fs (ReadFile p) (Some e)) = True"
| "read_failed e = False"

fun is_move :: "event \<Rightarrow> bool" where
  "is_move (Fs (Rename src dst) out) = True"
| "is_move e = False"

fun move_ok :: "event \<Rightarrow> bool" where
  "move_ok (Fs (Rename src dst) None) = True"
| "move_ok e = False"

fun move_failed :: "event \<Rightarrow> bool" where
  "move_failed (Fs (Rename src dst) (Some e)) = True"
| "move_failed e = False"

fun is_api_call :: "event \<Rightarrow> bool" where
  "is_api_call (Http req reply) = True"
| "is_api_call e = False"

fun is_status_post :: "event \<Rightarrow> bool" where
  "is_status_post (Http (PostStatus url text mediaId auth) reply) = True"
| "is_status_post e = False"

fun upload_ok :: "event \<Rightarrow> bool" where
  "upload_ok (Http (PostMedia url name content auth) (Inr data)) = True"
| "upload_ok e = False"

fun status_ok :: "event \<Rightarrow> bool" where
  "status_ok (Http (PostStatus url text mediaId auth) (Inr data)) = True"
| "status_ok e = False"

text \<open>The paths the program says it selected, and the paths it tried to read.\<close>

fun selected_path :: "event \<Rightarrow> path option" where
  "selected_path (Console Info msg) = strip_prefix ''Selected image: '' msg"
| "selected_path e = None"

fun read_path :: "event \<Rightarrow> path option" where
  "read_path (Fs (ReadFile p) out) = Some p"
| "read_path e = None"


text \<open>An event that is neither a file read, a move, a request nor a selection.\<close>

definition quiet :: "event \<Rightarrow> bool" where
  "quiet e = (\<not> is_read e \<and> \<not> is_move e \<and> \<not> is_api_call e \<and> selected_path e = None)"

text \<open>What the \<open>catch\<close> of \<open>postImageToFediverse\<close> prints for an error, and the two
  requests and the destination of the move as the program builds them.\<close>

definition error_report :: "path \<Rightarrow> js_error \<Rightarrow> event list" where
  "error_report imagePath error =
     Console Error (''Error posting '' @ basename imagePath @ '': '' @ message error) #
     (case response error of
        None \<Rightarrow> []
      | Some (status, data) \<Rightarrow>
          [Console Error (''Response status: '' @ show_nat status),
           Console Error (''Response data: '' @ stringify data)])"

definition upload_request :: "config \<Rightarrow> path \<Rightarrow> string \<Rightarrow> request" where
  "upload_request cfg imagePath c =
     PostMedia (instanceUrl cfg @ ''/api/v1/media'') (basename imagePath) c
       (''Bearer '' @ accessToken cfg)"

definition status_request :: "config \<Rightarrow> js_value \<Rightarrow> request" where
  "status_request cfg mediaId =
     PostStatus (instanceUrl cfg @ ''/api/v1/statuses'') (statusText cfg) mediaId
       (''Bearer '' @ accessToken cfg)"

definition archive_path :: "config \<Rightarrow> path \<Rightarrow> path" where
  "archive_path cfg imagePath = path_join (postedFolder cfg) (basename imagePath)"


subsection \<open>A small installation\<close>

text \<open>The scenario of the specification: the source directory holds \<open>a.jpg\<close>, \<open>b.PNG\<close>,
  \<open>c.txt\<close> and a subdirectory; the server answers the upload with media id \<open>42\<close> and the
  status with id \<open>100\<close>; no call fails.\<close>

definition ex_cfg :: config where
  "ex_cfg = \<lparr>instanceUrl = ''https://example.social'', accessToken = ''token'',
      imageFolder = ''./images'', postedFolder = ''./posted'',
      statusText = ''#ZoltanAsanski #Photography #Art'', postInterval = 900000\<rparr>"

definition ex_reply :: "nat \<Rightarrow> request \<Rightarrow> js_error + js_value" where
  "ex_reply t req =
     (case req of
        PostMedia url name content auth \<Rightarrow> Inr (Obj [(''id'', Str ''42'')])
      | PostStatus url text mediaId auth \<Rightarrow> Inr (Obj [(''id'', Str ''100'')]))"

definition ex_world :: world where
  "ex_world = \<lparr>fs = [(''./images'', Dir), (''./posted'', Dir),
                     (''./images/a.jpg'', File ''AAA''), (''./images/b.PNG'', File ''BBB''),
                     (''./images/c.txt'', File ''CCC''), (''./images/sub'', Dir)],
      clock = 0, fs_fault = (\<lambda>t c. None), http_reply = ex_reply, trace = []\<rparr>"

definition ex_start :: state where
  "ex_start = \<lparr>imageFiles = [], currentIndex = 0, world = ex_world\<rparr>"

text \<open>The state after \<open>start\<close> has loaded the example directory.\<close>

definition ex_loaded :: state where
  "ex_loaded = snd (loadImageFiles ex_cfg ex_start)"

text \<open>The same directory when listing it is not permitted.\<close>

definition ex_blocked :: state where
  "ex_blocked = \<lparr>imageFiles = [], currentIndex = 0,
     world = ex_world\<lparr>fs_fault :=
       (\<lambda>t c. case c of Readdir p \<Rightarrow> Some (fs_error ''EACCES'' p) | _ \<Rightarrow> None)\<rparr>\<rparr>"







section \<open>Properties\<close>

subsection \<open>The file filter\<close>









subsection \<open>What each function does to the world\<close>


lemma emitted_append: "trace w' = trace w @ evs \<Longrightarrow> emitted w w' = evs"
  by (simp add: emitted_def)

lemma ensureDirectoryExists_cases:
  assumes "ensureDirectoryExists d w = (r, w')"
  obtains
    (present) "r = Inr ()" "trace w' = trace w @ [Fs (Access d) None]" "fs w' = fs w"
  | (failed) e where "r = Inl e" "code e \<noteq> ''ENOENT''"
      "trace w' = trace w @ [Fs (Access d) (Some e)]" "fs w' = fs w"
  | (created) e where "code e = ''ENOENT''" "r = Inr ()"
      "trace w' = trace w @ [Fs (Access d) (Some e), Console Info (''Creating directory: '' @ d),
                             Fs (Mkdir d) None]"
      "fs w' = fs w \<or> fs w' = fs w @ [(d, Dir)]"
  | (mkdir_failed) e e' where "code e = ''ENOENT''" "r = Inl e'"
      "trace w' = trace w @ [Fs (Access d) (Some e), Console Info (''Creating directory: '' @ d),
                             Fs (Mkdir d) (Some e')]"
      "fs w' = fs w"
  using assms
  unfolding ensureDirectoryExists_def fs_access_def fs_mkdir_def fs_return_def log_def
  by (auto split: option.splits node.splits if_splits)

lemma quiet_simps [simp]:
  "quiet (Fs (Access p) out)" "quiet (Fs (Mkdir p) out)" "quiet (Fs (Readdir p) out)"
  "quiet (Console Warn m)" "quiet (Console Error m)"
  "quiet (Console Info m) = (strip_prefix ''Selected image: '' m = None)"
  by (simp_all add: quiet_def)

lemma ede_trace:
  assumes "ensureDirectoryExists d w = (r, w')"
  shows "\<exists>evs out. trace w' = trace w @ Fs (Access d) out # evs
           \<and> list_all quiet evs \<and> list_all (\<lambda>e. \<forall>p. e \<noteq> Fs (Readdir p) None) (Fs (Access d) out # evs)
           \<and> (list_ex scan_failed (Fs (Access d) out # evs) \<longleftrightarrow> r \<noteq> Inr ())
           \<and> (fs w' = fs w \<or> fs w' = fs w @ [(d, Dir)])"
  using assms by (cases rule: ensureDirectoryExists_cases) auto

lemma fs_readdir_cases:
  assumes "fs_readdir d w = (r, w')"
  obtains (listed) "r = Inr (entries d (fs w))" "trace w' = trace w @ [Fs (Readdir d) None]" "fs w' = fs w"
  | (failed) e where "r = Inl e" "trace w' = trace w @ [Fs (Readdir d) (Some e)]" "fs w' = fs w"
  using assms unfolding fs_readdir_def fs_return_def
  by (auto split: option.splits node.splits)

lemma loadImageFiles_try_effect:
  assumes "loadImageFiles_try cfg s = (r, s')"
  shows "\<exists>evs out. trace (world s') = trace (world s) @
             Console Info ''Starting to load image files...'' # Fs (Access (imageFolder cfg)) out # evs
           \<and> list_all quiet evs
           \<and> currentIndex s' = currentIndex s
           \<and> (\<exists>extra. fs (world s') = fs (world s) @ extra
                 \<and> set extra \<subseteq> {(imageFolder cfg, Dir), (postedFolder cfg, Dir)})
           \<and> (case r of
                 Inl e \<Rightarrow> list_ex scan_failed (Fs (Access (imageFolder cfg)) out # evs)
                          \<and> list_all (\<lambda>e. \<forall>p. e \<noteq> Fs (Readdir p) None) evs
                          \<and> imageFiles s' = imageFiles s
               | Inr u \<Rightarrow> \<not> list_ex scan_failed (Fs (Access (imageFolder cfg)) out # evs)
                          \<and> Fs (Readdir (imageFolder cfg)) None \<in> set evs
                          \<and> imageFiles s' = filter regex_test (entries (imageFolder cfg) (fs (world s'))))"
proof -
  define w0 where "w0 = log ''Starting to load image files...'' Info (world s)"
  obtain r1 w1 where e1: "ensureDirectoryExists (imageFolder cfg) w0 = (r1, w1)" by fastforce
  obtain r2 w2 where e2: "ensureDirectoryExists (postedFolder cfg) w1 = (r2, w2)" by fastforce
  obtain r3 w3 where e3: "fs_readdir (imageFolder cfg) w2 = (r3, w3)" by fastforce
  have t0: "trace w0 = trace (world s) @ [Console Info ''Starting to load image files...'']"
    "fs w0 = fs (world s)" by (simp_all add: w0_def log_def)
  from ede_trace[OF e1] obtain evs1 out1 where
    t1: "trace w1 = trace w0 @ Fs (Access (imageFolder cfg)) out1 # evs1"
    and q1: "list_all quiet evs1"
    and n1: "list_all (\<lambda>e. \<forall>p. e \<noteq> Fs (Readdir p) None) (Fs (Access (imageFolder cfg)) out1 # evs1)"
    and f1: "list_ex scan_failed (Fs (Access (imageFolder cfg)) out1 # evs1) \<longleftrightarrow> r1 \<noteq> Inr ()"
    and fs1: "fs w1 = fs w0 \<or> fs w1 = fs w0 @ [(imageFolder cfg, Dir)]" by blast
  from ede_trace[OF e2] obtain evs2 out2 where
    t2: "trace w2 = trace w1 @ Fs (Access (postedFolder cfg)) out2 # evs2"
    and q2: "list_all quiet evs2"
    and n2: "list_all (\<lambda>e. \<forall>p. e \<noteq> Fs (Readdir p) None) (Fs (Access (postedFolder cfg)) out2 # evs2)"
    and f2: "list_ex scan_failed (Fs (Access (postedFolder cfg)) out2 # evs2) \<longleftrightarrow> r2 \<noteq> Inr ()"
    and fs2: "fs w2 = fs w1 \<or> fs w2 = fs w1 @ [(postedFolder cfg, Dir)]" by blast
  show ?thesis
  proof (cases r1)
    case (Inl e)
    with assms e1 have "r = Inl e" "s' = s\<lparr>world := w1\<rparr>"
      by (simp_all add: loadImageFiles_try_def w0_def[symmetric])
    with t0 t1 q1 n1 f1 fs1 Inl show ?thesis by auto
  next
    case (Inr u1)
    note r1 = this
    show ?thesis
    proof (cases r2)
      case (Inl e)
      with assms e1 e2 r1 have "r = Inl e" "s' = s\<lparr>world := w2\<rparr>"
        by (simp_all add: loadImageFiles_try_def w0_def[symmetric])
      with t0 t1 q1 n1 f1 fs1 t2 q2 n2 f2 fs2 Inl r1 show ?thesis by auto
    next
      case (Inr u2)
      note r2 = this
      from e3 show ?thesis
      proof (cases rule: fs_readdir_cases)
        case listed
        with assms e1 e2 e3 r1 r2 have sr: "r = Inr ()"
          "s' = slog (''Image files: '' @ join '', '' (filter regex_test (entries (imageFolder cfg) (fs w2)))) Info
                 (slog (''Loaded '' @ show_nat (length (filter regex_test (entries (imageFolder cfg) (fs w2)))) @ '' images from '' @ imageFolder cfg) Info
                    (s\<lparr>imageFiles := filter regex_test (entries (imageFolder cfg) (fs w2)), world := w3\<rparr>))"
          by (auto simp add: loadImageFiles_try_def w0_def[symmetric] Let_def slog_def)
        then have "r = Inr ()"
          "imageFiles s' = filter regex_test (entries (imageFolder cfg) (fs w2))"
          "currentIndex s' = currentIndex s"
          "fs (world s') = fs w3"
          "trace (world s') = trace w3 @ [Console Info (''Loaded '' @ show_nat (length (filter regex_test (entries (imageFolder cfg) (fs w2)))) @ '' images from '' @ imageFolder cfg),
             Console Info (''Image files: '' @ join '', '' (filter regex_test (entries (imageFolder cfg) (fs w2))))]"
          by (simp_all add: slog_def log_def)
        with listed t0 t1 q1 n1 f1 fs1 t2 q2 n2 f2 fs2 r1 r2 show ?thesis by auto
      next
        case (failed e)
        with assms e1 e2 e3 r1 r2 have "r = Inl e" "s' = s\<lparr>world := w3\<rparr>"
          by (simp_all add: loadImageFiles_try_def w0_def[symmetric])
        with failed t0 t1 q1 n1 f1 fs1 t2 q2 n2 f2 fs2 r1 r2 show ?thesis by auto
      qed
    qed
  qed
qed


lemma loadImageFiles_effect:
  assumes "loadImageFiles cfg s = (r, s')"
  shows "r = Inr () \<and> currentIndex s' = currentIndex s \<and>
     (\<exists>evs out extra. trace (world s') = trace (world s) @
             Console Info ''Starting to load image files...'' # Fs (Access (imageFolder cfg)) out # evs
           \<and> list_all quiet evs
           \<and> fs (world s') = fs (world s) @ extra
           \<and> set extra \<subseteq> {(imageFolder cfg, Dir), (postedFolder cfg, Dir)}
           \<and> (list_ex scan_failed (Fs (Access (imageFolder cfg)) out # evs)
                  \<and> list_all (\<lambda>e. \<forall>p. e \<noteq> Fs (Readdir p) None) evs
                  \<and> imageFiles s' = imageFiles s
                  \<and> (\<exists>e pre. evs = pre @ [Console Error (''Error reading image folder: '' @ message e)])
               \<or> \<not> list_ex scan_failed (Fs (Access (imageFolder cfg)) out # evs)
                  \<and> Fs (Readdir (imageFolder cfg)) None \<in> set evs
                  \<and> imageFiles s' = filter regex_test (entries (imageFolder cfg) (fs (world s')))))"
proof -
  obtain r0 s0 where t: "loadImageFiles_try cfg s = (r0, s0)" by fastforce
  from loadImageFiles_try_effect[OF t] obtain evs out extra where
    tr: "trace (world s0) = trace (world s) @
             Console Info ''Starting to load image files...'' # Fs (Access (imageFolder cfg)) out # evs"
    and q: "list_all quiet evs" and ci: "currentIndex s0 = currentIndex s"
    and ex: "fs (world s0) = fs (world s) @ extra" "set extra \<subseteq> {(imageFolder cfg, Dir), (postedFolder cfg, Dir)}"
    and c: "(case r0 of
                 Inl e \<Rightarrow> list_ex scan_failed (Fs (Access (imageFolder cfg)) out # evs)
                          \<and> list_all (\<lambda>e. \<forall>p. e \<noteq> Fs (Readdir p) None) evs
                          \<and> imageFiles s0 = imageFiles s
               | Inr u \<Rightarrow> \<not> list_ex scan_failed (Fs (Access (imageFolder cfg)) out # evs)
                          \<and> Fs (Readdir (imageFolder cfg)) None \<in> set evs
                          \<and> imageFiles s0 = filter regex_test (entries (imageFolder cfg) (fs (world s0))))"
    by blast
  show ?thesis
  proof (cases r0)
    case (Inr u)
    with assms t have "r = Inr ()" "s' = s0" by (simp_all add: loadImageFiles_def)
    with tr q ci ex c Inr show ?thesis by auto
  next
    case (Inl e)
    with assms t have rs: "r = Inr ()"
      "s' = slog (''Error reading image folder: '' @ message e) Error s0"
      by (simp_all add: loadImageFiles_def)
    let ?evs = "evs @ [Console Error (''Error reading image folder: '' @ message e)]"
    have "trace (world s') = trace (world s) @
             Console Info ''Starting to load image files...'' # Fs (Access (imageFolder cfg)) out # ?evs"
      using rs tr by (simp add: slog_def log_def)
    moreover have "list_all quiet ?evs" using q by simp
    moreover have "fs (world s') = fs (world s) @ extra" using rs ex by (simp add: slog_def log_def)
    moreover have "list_ex scan_failed (Fs (Access (imageFolder cfg)) out # ?evs)"
      using c Inl by auto
    moreover have "list_all (\<lambda>e. \<forall>p. e \<noteq> Fs (Readdir p) None) ?evs" using c Inl by simp
    moreover have "imageFiles s' = imageFiles s" "currentIndex s' = currentIndex s"
      using c Inl rs ci by (simp_all add: slog_def)
    moreover have "\<exists>e pre. ?evs = pre @ [Console Error (''Error reading image folder: '' @ message e)]"
      by blast
    ultimately show ?thesis using rs ex(2) by blast
  qed
qed


lemma movePostedImage_cases:
  assumes "movePostedImage cfg imagePath w = (r, w')"
  obtains
    (move_failed) e where "r = Inr ()" "fs w' = fs w"
      "trace w' = trace w @
         [Fs (Rename imagePath (path_join (postedFolder cfg) (basename imagePath))) (Some e),
          Console Error (''Error moving file '' @ basename imagePath @ '': '' @ message e)]"
  | (moved) n where "r = Inr ()" "map_of (fs w) imagePath = Some n"
      "fs w' = filter (\<lambda>(p, m). p \<noteq> imagePath
                  \<and> p \<noteq> path_join (postedFolder cfg) (basename imagePath)) (fs w)
               @ [(path_join (postedFolder cfg) (basename imagePath), n)]"
      "trace w' = trace w @
         [Fs (Rename imagePath (path_join (postedFolder cfg) (basename imagePath))) None,
          Console Info (''Moved '' @ basename imagePath @ '' to '' @ postedFolder cfg)]"
  using assms
  unfolding movePostedImage_def fs_rename_def fs_return_def log_def Let_def
  by (auto split: option.splits)

lemma postImage_try_cases:
  assumes "postImage_try cfg imagePath c w = (r, w')"
  obtains
    (try_upload_failed) e where "r = Inl e" "fs w' = fs w"
      "trace w' = trace w @
         [Console Info ''Uploading media to Fediverse instance...'',
          Http (PostMedia (instanceUrl cfg @ ''/api/v1/media'') (basename imagePath) c
                  (''Bearer '' @ accessToken cfg)) (Inl e)]"
  | (try_no_body) data e where "r = Inl e" "fs w' = fs w" "get_member data ''id'' = Inl e"
      "trace w' = trace w @
         [Console Info ''Uploading media to Fediverse instance...'',
          Http (PostMedia (instanceUrl cfg @ ''/api/v1/media'') (basename imagePath) c
                  (''Bearer '' @ accessToken cfg)) (Inr data)]"
  | (try_status_failed) data mediaId e where "r = Inl e" "fs w' = fs w"
      "get_member data ''id'' = Inr mediaId"
      "trace w' = trace w @
         [Console Info ''Uploading media to Fediverse instance...'',
          Http (PostMedia (instanceUrl cfg @ ''/api/v1/media'') (basename imagePath) c
                  (''Bearer '' @ accessToken cfg)) (Inr data),
          Console Info (''Media uploaded successfully. Media ID: '' @ to_string mediaId),
          Console Info ''Posting status with media...'',
          Http (PostStatus (instanceUrl cfg @ ''/api/v1/statuses'') (statusText cfg) mediaId
                  (''Bearer '' @ accessToken cfg)) (Inl e)]"
  | (try_archive_failed) data mediaId reply e where "r = Inr ()" "fs w' = fs w"
      "get_member data ''id'' = Inr mediaId"
      "trace w' = trace w @
         [Console Info ''Uploading media to Fediverse instance...'',
          Http (PostMedia (instanceUrl cfg @ ''/api/v1/media'') (basename imagePath) c
                  (''Bearer '' @ accessToken cfg)) (Inr data),
          Console Info (''Media uploaded successfully. Media ID: '' @ to_string mediaId),
          Console Info ''Posting status with media...'',
          Http (PostStatus (instanceUrl cfg @ ''/api/v1/statuses'') (statusText cfg) mediaId
                  (''Bearer '' @ accessToken cfg)) (Inr reply),
          Console Info (''Successfully posted '' @ basename imagePath),
          Fs (Rename imagePath (path_join (postedFolder cfg) (basename imagePath))) (Some e),
          Console Error (''Error moving file '' @ basename imagePath @ '': '' @ message e)]"
  | (try_archived) data mediaId reply n where "r = Inr ()"
      "get_member data ''id'' = Inr mediaId" "map_of (fs w) imagePath = Some n"
      "fs w' = filter (\<lambda>(p, m). p \<noteq> imagePath
                  \<and> p \<noteq> path_join (postedFolder cfg) (basename imagePath)) (fs w)
               @ [(path_join (postedFolder cfg) (basename imagePath), n)]"
      "trace w' = trace w @
         [Console Info ''Uploading media to Fediverse instance...'',
          Http (PostMedia (instanceUrl cfg @ ''/api/v1/media'') (basename imagePath) c
                  (''Bearer '' @ accessToken cfg)) (Inr data),
          Console Info (''Media uploaded successfully. Media ID: '' @ to_string mediaId),
          Console Info ''Posting status with media...'',
          Http (PostStatus (instanceUrl cfg @ ''/api/v1/statuses'') (statusText cfg) mediaId
                  (''Bearer '' @ accessToken cfg)) (Inr reply),
          Console Info (''Successfully posted '' @ basename imagePath),
          Fs (Rename imagePath (path_join (postedFolder cfg) (basename imagePath))) None,
          Console Info (''Moved '' @ basename imagePath @ '' to '' @ postedFolder cfg)]"
proof -
  let ?w0 = "log ''Uploading media to Fediverse instance...'' Info w"
  let ?req = "PostMedia (instanceUrl cfg @ ''/api/v1/media'') (basename imagePath) c
                  (''Bearer '' @ accessToken cfg)"
  obtain r1 w1 where h1: "http_post ?req ?w0 = (r1, w1)" by fastforce
  then have t1: "trace w1 = trace w @ [Console Info ''Uploading media to Fediverse instance...'', Http ?req r1]"
    "fs w1 = fs w"
    by (auto simp: http_post_def log_def)
  show ?thesis
  proof (cases r1)
    case (Inl e)
    with assms h1 have "r = Inl e" "w' = w1"
      by (simp_all add: postImage_try_def)
    with t1 Inl show ?thesis using try_upload_failed by simp
  next
    case (Inr data)
    note r1 = this
    show ?thesis
    proof (cases "get_member data ''id''")
      case (Inl e)
      with assms h1 r1 have "r = Inl e" "w' = w1"
        by (simp_all add: postImage_try_def)
      with t1 r1 Inl show ?thesis using try_no_body by simp
    next
      case (Inr mediaId)
      note g = this
      let ?w3 = "log ''Posting status with media...'' Info
         (log (''Media uploaded successfully. Media ID: '' @ to_string mediaId) Info w1)"
      let ?req2 = "PostStatus (instanceUrl cfg @ ''/api/v1/statuses'') (statusText cfg) mediaId
                  (''Bearer '' @ accessToken cfg)"
      obtain r4 w4 where h4: "http_post ?req2 ?w3 = (r4, w4)" by fastforce
      then have t4: "trace w4 = trace w1 @ [Console Info (''Media uploaded successfully. Media ID: '' @ to_string mediaId),
          Console Info ''Posting status with media...'', Http ?req2 r4]" "fs w4 = fs w1"
        by (auto simp: http_post_def log_def)
      show ?thesis
      proof (cases r4)
        case (Inl e)
        with assms h1 r1 g h4 have "r = Inl e" "w' = w4"
          by (simp_all add: postImage_try_def Let_def)
        with t1 t4 r1 g Inl show ?thesis using try_status_failed by simp
      next
        case (Inr reply)
        let ?w5 = "log (''Successfully posted '' @ basename imagePath) Info w4"
        have t5: "trace ?w5 = trace w4 @ [Console Info (''Successfully posted '' @ basename imagePath)]"
          "fs ?w5 = fs w4" by (simp_all add: log_def)
        from assms h1 r1 g h4 Inr have m: "movePostedImage cfg imagePath ?w5 = (r, w')"
          by (simp add: postImage_try_def Let_def)
        from m show ?thesis
        proof (cases rule: movePostedImage_cases)
          case (move_failed e)
          with t1 t4 t5 r1 g Inr show ?thesis
            using try_archive_failed[of data mediaId reply e] by simp
        next
          case (moved n)
          with t1 t4 t5 r1 g Inr show ?thesis
            using try_archived[of data mediaId n reply] by simp
        qed
      qed
    qed
  qed
qed


lemma postImageToFediverse_cases:
  assumes "postImageToFediverse cfg imagePath w = (r, w')"
  obtains
    (read_failed) e where "r = Inr ()" "fs w' = fs w"
      "trace w' = trace w @
         [Console Info (''Attempting to post image: '' @ imagePath),
          Fs (ReadFile imagePath) (Some e),
          Console Error (''Error reading file '' @ imagePath @ '': '' @ message e)]"
  | (upload_failed) c e where "r = Inr ()" "fs w' = fs w"
      "trace w' = trace w @
         [Console Info (''Attempting to post image: '' @ imagePath),
          Fs (ReadFile imagePath) None,
          Console Info ''File read successfully and added to form data'',
          Console Info ''Uploading media to Fediverse instance...'',
          Http (upload_request cfg imagePath c) (Inl e)] @ error_report imagePath e"
  | (no_body) c data e where "r = Inr ()" "fs w' = fs w" "get_member data ''id'' = Inl e"
      "trace w' = trace w @
         [Console Info (''Attempting to post image: '' @ imagePath),
          Fs (ReadFile imagePath) None,
          Console Info ''File read successfully and added to form data'',
          Console Info ''Uploading media to Fediverse instance...'',
          Http (upload_request cfg imagePath c) (Inr data)] @ error_report imagePath e"
  | (status_failed) c data mediaId e where "r = Inr ()" "fs w' = fs w"
      "get_member data ''id'' = Inr mediaId"
      "trace w' = trace w @
         [Console Info (''Attempting to post image: '' @ imagePath),
          Fs (ReadFile imagePath) None,
          Console Info ''File read successfully and added to form data'',
          Console Info ''Uploading media to Fediverse instance...'',
          Http (upload_request cfg imagePath c) (Inr data),
          Console Info (''Media uploaded successfully. Media ID: '' @ to_string mediaId),
          Console Info ''Posting status with media...'',
          Http (status_request cfg mediaId) (Inl e)] @ error_report imagePath e"
  | (archive_failed) c data mediaId reply e where "r = Inr ()" "fs w' = fs w"
      "get_member data ''id'' = Inr mediaId" "map_of (fs w) imagePath = Some (File c)"
      "trace w' = trace w @
         [Console Info (''Attempting to post image: '' @ imagePath),
          Fs (ReadFile imagePath) None,
          Console Info ''File read successfully and added to form data'',
          Console Info ''Uploading media to Fediverse instance...'',
          Http (upload_request cfg imagePath c) (Inr data),
          Console Info (''Media uploaded successfully. Media ID: '' @ to_string mediaId),
          Console Info ''Posting status with media...'',
          Http (status_request cfg mediaId) (Inr reply),
          Console Info (''Successfully posted '' @ basename imagePath),
          Fs (Rename imagePath (archive_path cfg imagePath)) (Some e),
          Console Error (''Error moving file '' @ basename imagePath @ '': '' @ message e)]"
  | (archived) c data mediaId reply where "r = Inr ()"
      "get_member data ''id'' = Inr mediaId" "map_of (fs w) imagePath = Some (File c)"
      "fs w' = filter (\<lambda>(p, m). p \<noteq> imagePath \<and> p \<noteq> archive_path cfg imagePath) (fs w)
               @ [(archive_path cfg imagePath, File c)]"
      "trace w' = trace w @
         [Console Info (''Attempting to post image: '' @ imagePath),
          Fs (ReadFile imagePath) None,
          Console Info ''File read successfully and added to form data'',
          Console Info ''Uploading media to Fediverse instance...'',
          Http (upload_request cfg imagePath c) (Inr data),
          Console Info (''Media uploaded successfully. Media ID: '' @ to_string mediaId),
          Console Info ''Posting status with media...'',
          Http (status_request cfg mediaId) (Inr reply),
          Console Info (''Successfully posted '' @ basename imagePath),
          Fs (Rename imagePath (archive_path cfg imagePath)) None,
          Console Info (''Moved '' @ basename imagePath @ '' to '' @ postedFolder cfg)]"
proof -
  let ?w0 = "log (''Attempting to post image: '' @ imagePath) Info w"
  obtain r1 w1 where h1: "fs_readFile imagePath ?w0 = (r1, w1)" by fastforce
  then have t1: "trace w1 = trace w @ [Console Info (''Attempting to post image: '' @ imagePath),
       Fs (ReadFile imagePath) (case r1 of Inl e \<Rightarrow> Some e | Inr c \<Rightarrow> None)]" "fs w1 = fs w"
    "\<And>c. r1 = Inr c \<Longrightarrow> map_of (fs w) imagePath = Some (File c)"
    by (auto simp: fs_readFile_def fs_return_def log_def split: option.splits node.splits)
  show ?thesis
  proof (cases r1)
    case (Inl e)
    with assms h1 have "r = Inr ()"
      "w' = log (''Error reading file '' @ imagePath @ '': '' @ message e) Error w1"
      by (auto simp add: postImageToFediverse_def)
    with t1 Inl show ?thesis using read_failed[of e] by (simp add: log_def)
  next
    case (Inr c)
    note r1 = this
    let ?w2 = "log ''File read successfully and added to form data'' Info w1"
    obtain r3 w3 where h3: "postImage_try cfg imagePath c ?w2 = (r3, w3)" by fastforce
    have t2: "trace ?w2 = trace w1 @ [Console Info ''File read successfully and added to form data'']"
      "fs ?w2 = fs w1" by (simp_all add: log_def)
    have fin: "r = Inr ()" "fs w' = fs w3"
      "trace w' = trace w3 @ (case r3 of Inl e \<Rightarrow> error_report imagePath e | Inr u \<Rightarrow> [])"
      using assms h1 r1 h3
      by (auto simp add: postImageToFediverse_def Let_def error_report_def log_def
            split: sum.splits option.splits)
    from h3 show ?thesis
    proof (cases rule: postImage_try_cases)
      case (try_upload_failed e)
      with t1 t2 r1 fin show ?thesis
        using upload_failed[of c e] by (simp add: upload_request_def)
    next
      case (try_no_body data e)
      with t1 t2 r1 fin show ?thesis
        using no_body[of data e c] by (simp add: upload_request_def)
    next
      case (try_status_failed data mediaId e)
      with t1 t2 r1 fin show ?thesis
        using status_failed[of data mediaId c e]
        by (simp add: upload_request_def status_request_def)
    next
      case (try_archive_failed data mediaId reply e)
      with t1 t2 r1 fin show ?thesis
        using archive_failed[of data mediaId c reply e]
        by (simp add: upload_request_def status_request_def archive_path_def)
    next
      case (try_archived data mediaId reply n)
      with t1 t2 r1 fin show ?thesis
        using archived[of data mediaId c reply]
        by (simp add: upload_request_def status_request_def archive_path_def)
    qed
  qed
qed

subsection \<open>Evaluating the example\<close>

lemmas ex_defs = ex_cfg_def ex_reply_def ex_world_def ex_start_def
lemmas run_defs = loadImageFiles_def loadImageFiles_try_def ensureDirectoryExists_def
  fs_access_def fs_mkdir_def fs_readdir_def fs_readFile_def fs_rename_def fs_return_def
  http_post_def log_def slog_def entries_def child_name_def List.map_filter_def
  postNextImage_def postSelected_def postImageToFediverse_def postImage_try_def
  movePostedImage_def path_join_def basename_def splice1_def emitted_def Let_def
  fs_error_def

lemma ex_names: "regex_test ''a.jpg''" "regex_test ''b.PNG''" "\<not> regex_test ''c.txt''"
  "\<not> regex_test ''sub''"
  by code_simp+

lemma error_report_simps [simp]:
  "list_ex is_read (error_report p e) = False"
  "list_ex read_failed (error_report p e) = False"
  "list_ex is_move (error_report p e) = False"
  "list_ex move_ok (error_report p e) = False"
  "list_ex move_failed (error_report p e) = False"
  "list_ex is_api_call (error_report p e) = False"
  "list_ex is_status_post (error_report p e) = False"
  "list_ex upload_ok (error_report p e) = False"
  "list_ex status_ok (error_report p e) = False"
  "list_ex is_scan (error_report p e) = False"
  "List.map_filter selected_path (error_report p e) = []"
  "List.map_filter read_path (error_report p e) = []"
  by (simp_all add: error_report_def List.map_filter_def split: option.splits)

lemma request_simps [simp]:
  "upload_ok (Http (upload_request cfg p c) r) = (\<exists>d. r = Inr d)"
  "status_ok (Http (upload_request cfg p c) r) = False"
  "upload_ok (Http (status_request cfg m) r) = False"
  "status_ok (Http (status_request cfg m) r) = (\<exists>d. r = Inr d)"
  "is_status_post (Http (upload_request cfg p c) r) = False"
  "is_status_post (Http (status_request cfg m) r) = True"
  by (cases r; simp add: upload_request_def status_request_def)+

subsection \<open>The scan\<close>



subsection \<open>One publish attempt\<close>

text \<open>
  Claim C6.  When reading the file fails, the attempt ends at once: the trace of the
  attempt is the announcement, the failed read and the error line, so no request is
  sent, nothing is moved and the file system is as it was; the call returns normally.
\<close>

theorem read_failure_ends_attempt:
  assumes "postImageToFediverse cfg imagePath w = (r, w')"
    and "list_ex read_failed (emitted w w')"
  shows "r = Inr () \<and> fs w' = fs w
       \<and> (\<exists>e. emitted w w' =
             [Console Info (''Attempting to post image: '' @ imagePath),
              Fs (ReadFile imagePath) (Some e),
              Console Error (''Error reading file '' @ imagePath @ '': '' @ message e)])
       \<and> \<not> list_ex is_api_call (emitted w w') \<and> \<not> list_ex is_move (emitted w w')"
  using assms(1)
proof (cases rule: postImageToFediverse_cases)
  case (read_failed e)
  then show ?thesis by (simp add: emitted_append)
qed (use assms(2) in \<open>simp_all add: emitted_append\<close>)

theorem read_failure_ends_attempt_witness:
  "list_ex read_failed
     (emitted ex_world (snd (postImageToFediverse ex_cfg ''./images/gone.jpg'' ex_world)))
   \<and> fst (postImageToFediverse ex_cfg ''./images/gone.jpg'' ex_world) = Inr ()
   \<and> fs (snd (postImageToFediverse ex_cfg ''./images/gone.jpg'' ex_world)) = fs ex_world
   \<and> \<not> list_ex is_api_call
        (emitted ex_world (snd (postImageToFediverse ex_cfg ''./images/gone.jpg'' ex_world)))"
proof -
  have h: "list_ex read_failed
     (emitted ex_world (snd (postImageToFediverse ex_cfg ''./images/gone.jpg'' ex_world)))"
    by (simp add: ex_defs run_defs)
  from read_failure_ends_attempt [OF prod.collapse [symmetric] h] h show ?thesis by blast
qed

subsection \<open>Paths and listings\<close>

lemma strip_prefix_iff: "strip_prefix xs ys = Some r \<longleftrightarrow> ys = xs @ r"
  by (induction xs ys rule: strip_prefix.induct) auto

lemma strip_prefix_None: "strip_prefix xs ys = None \<longleftrightarrow> (\<forall>r. ys \<noteq> xs @ r)"
  by (induction xs ys rule: strip_prefix.induct) auto

lemma child_name_iff:
  "child_name dir p = Some r \<longleftrightarrow> p = path_join dir r \<and> r \<noteq> [] \<and> CHR ''/'' \<notin> set r"
proof (cases "strip_prefix (dir @ ''/'') p")
  case None
  then have "\<forall>r. p \<noteq> (dir @ ''/'') @ r" using strip_prefix_None by blast
  then have "p \<noteq> (dir @ ''/'') @ r" by blast
  then have "p \<noteq> path_join dir r" by (simp add: path_join_def)
  with None show ?thesis by (simp add: child_name_def)
next
  case (Some q)
  then have "p = (dir @ ''/'') @ q" using strip_prefix_iff by blast
  then have "p = path_join dir q" by (simp add: path_join_def)
  with Some show ?thesis by (auto simp add: child_name_def path_join_def)
qed

lemma map_filter_append:
  "List.map_filter f (xs @ ys) = List.map_filter f xs @ List.map_filter f ys"
  by (simp add: List.map_filter_def)

lemma set_map_filter: "set (List.map_filter f xs) = {y. \<exists>x\<in>set xs. f x = Some y}"
  by (induction xs) (auto split: option.splits)

lemma set_entries:
  "set (entries dir files)
     = {r. r \<noteq> [] \<and> CHR ''/'' \<notin> set r \<and> path_join dir r \<in> fst ` set files}"
  by (force simp: entries_def set_map_filter child_name_iff)


lemma path_join_inject [simp]: "path_join d a = path_join d b \<longleftrightarrow> a = b"
  by (simp add: path_join_def)

lemma splice1_length: "i < length xs \<Longrightarrow> length (splice1 i xs) = length xs - 1"
  by (simp add: splice1_def)

lemma set_splice1: "set (splice1 i xs) \<subseteq> set xs"
  by (auto simp: splice1_def dest: in_set_takeD in_set_dropD)

subsection \<open>Selecting and posting\<close>

lemma postImageToFediverse_digest:
  assumes "postImageToFediverse cfg imagePath w = (r, w')"
  shows "r = Inr () \<and> (\<exists>evs. trace w' = trace w @ evs
           \<and> List.map_filter selected_path evs = []
           \<and> List.map_filter read_path evs = [imagePath]
           \<and> \<not> list_ex is_scan evs)"
  using assms
  by (cases rule: postImageToFediverse_cases) (simp_all add: map_filter_simps map_filter_append)

lemma postSelected_effect:
  assumes "postSelected cfg s = (r, s')" and "currentIndex s < length (imageFiles s)"
  shows "\<exists>w1. postImageToFediverse cfg (path_join (imageFolder cfg) (imageFiles s ! currentIndex s))
                 (log (''Selected image: '' @ path_join (imageFolder cfg) (imageFiles s ! currentIndex s))
                    Info (world s)) = (Inr (), w1)
           \<and> r = Inr ()
           \<and> imageFiles s' = splice1 (currentIndex s) (imageFiles s)
           \<and> currentIndex s' = (if imageFiles s' = [] then 0
                                else currentIndex s mod length (imageFiles s'))
           \<and> fs (world s') = fs w1
           \<and> (\<exists>m. trace (world s') = trace w1 @ [Console Info (''Updated current index to '' @ m)])"
proof -
  let ?p = "path_join (imageFolder cfg) (imageFiles s ! currentIndex s)"
  let ?w0 = "log (''Selected image: '' @ ?p) Info (world s)"
  obtain r1 w1 where h: "postImageToFediverse cfg ?p ?w0 = (r1, w1)" by fastforce
  then have r1: "r1 = Inr ()" using postImageToFediverse_digest by blast
  let ?xs = "splice1 (currentIndex s) (imageFiles s)"
  let ?i = "if ?xs = [] then 0 else currentIndex s mod length ?xs"
  from h r1 assms have "r = Inr ()"
    "s' = slog (''Updated current index to '' @ show_nat ?i @ ''. Remaining images: ''
                  @ show_nat (length ?xs)) Info
            (s\<lparr>imageFiles := ?xs, world := w1, currentIndex := ?i\<rparr>)"
    by (auto simp add: postSelected_def Let_def slog_def)
  then have "r = Inr ()" "imageFiles s' = ?xs" "currentIndex s' = ?i" "fs (world s') = fs w1"
    "trace (world s') = trace w1 @ [Console Info (''Updated current index to '' @ (show_nat ?i
       @ ''. Remaining images: '' @ show_nat (length ?xs)))]"
    by (simp_all add: slog_def log_def)
  with h r1 show ?thesis by auto
qed

lemma loadImageFiles_returns: "fst (loadImageFiles cfg s) = Inr ()"
  using loadImageFiles_effect [of cfg s] by (metis prod.collapse)

lemma postNextImage_cases:
  assumes "postNextImage cfg s = (r, s')"
  obtains
    (skip) "imageFiles s = []" "imageFiles (reloaded cfg s) = []" "r = Inr ()"
      "s' = slog ''Still no images found. Skipping this post.'' Warn (reloaded cfg s)"
  | (reload_post) "imageFiles s = []" "imageFiles (reloaded cfg s) \<noteq> []"
      "postSelected cfg (reloaded cfg s) = (r, s')"
  | (post) "imageFiles s \<noteq> []"
      "postSelected cfg (slog ''Preparing to post next image...'' Info s) = (r, s')"
proof (cases "imageFiles s = []")
  case False
  with assms have "postSelected cfg (slog ''Preparing to post next image...'' Info s) = (r, s')"
    by (simp add: postNextImage_def Let_def slog_def)
  with False show ?thesis using post by blast
next
  case True
  let ?l = "loadImageFiles cfg (slog ''No images found. Reloading image files...'' Info
               (slog ''Preparing to post next image...'' Info s))"
  have l: "?l = (Inr (), reloaded cfg s)"
    using loadImageFiles_returns [of cfg "slog ''No images found. Reloading image files...'' Info
               (slog ''Preparing to post next image...'' Info s)"]
    by (simp add: reloaded_def prod_eq_iff)
  show ?thesis
  proof (cases "imageFiles (reloaded cfg s) = []")
    case e: True
    with assms True l have "r = Inr ()"
      "s' = slog ''Still no images found. Skipping this post.'' Warn (reloaded cfg s)"
      by (simp_all add: postNextImage_def Let_def slog_def)
    with True e show ?thesis using skip by blast
  next
    case e: False
    with assms True l have "postSelected cfg (reloaded cfg s) = (r, s')"
      by (simp add: postNextImage_def Let_def slog_def)
    with True e show ?thesis using reload_post by blast
  qed
qed

subsection \<open>The states the process reaches\<close>

lemma reloaded_effect:
  "currentIndex (reloaded cfg s) = currentIndex s
   \<and> (imageFiles (reloaded cfg s) = imageFiles s
      \<or> imageFiles (reloaded cfg s)
          = filter regex_test (entries (imageFolder cfg) (fs (world (reloaded cfg s)))))"
proof -
  let ?s = "slog ''No images found. Reloading image files...'' Info
               (slog ''Preparing to post next image...'' Info s)"
  have "loadImageFiles cfg ?s = (fst (loadImageFiles cfg ?s), reloaded cfg s)"
    by (simp add: reloaded_def)
  from loadImageFiles_effect [OF this] show ?thesis by (auto simp: slog_def)
qed

lemma tick_post:
  assumes "postNextImage cfg s = (r, s')" and "imageFiles s \<noteq> []"
    and "currentIndex s < length (imageFiles s)"
  shows "\<exists>w1 m. postImageToFediverse cfg (path_join (imageFolder cfg) (imageFiles s ! currentIndex s))
             (log (''Selected image: '' @ path_join (imageFolder cfg) (imageFiles s ! currentIndex s)) Info
                (log ''Preparing to post next image...'' Info (world s))) = (Inr (), w1)
         \<and> r = Inr ()
         \<and> imageFiles s' = splice1 (currentIndex s) (imageFiles s)
         \<and> currentIndex s' = (if imageFiles s' = [] then 0
                              else currentIndex s mod length (imageFiles s'))
         \<and> fs (world s') = fs w1
         \<and> emitted (world s) (world s') =
             Console Info ''Preparing to post next image...'' #
             Console Info (''Selected image: '' @ path_join (imageFolder cfg) (imageFiles s ! currentIndex s)) #
             emitted (log (''Selected image: '' @ path_join (imageFolder cfg) (imageFiles s ! currentIndex s)) Info
                (log ''Preparing to post next image...'' Info (world s))) w1
             @ [Console Info (''Updated current index to '' @ m)]"
proof -
  let ?s0 = "slog ''Preparing to post next image...'' Info s"
  let ?p = "path_join (imageFolder cfg) (imageFiles s ! currentIndex s)"
  let ?w0 = "log (''Selected image: '' @ ?p) Info (log ''Preparing to post next image...'' Info (world s))"
  from assms(1,2) have ps: "postSelected cfg ?s0 = (r, s')"
    by (cases rule: postNextImage_cases) simp_all
  have s0: "imageFiles ?s0 = imageFiles s" "currentIndex ?s0 = currentIndex s"
    "world ?s0 = log ''Preparing to post next image...'' Info (world s)"
    by (simp_all add: slog_def)
  from postSelected_effect [OF ps] assms(3) s0 obtain w1 m where
    run: "postImageToFediverse cfg ?p ?w0 = (Inr (), w1)" and r: "r = Inr ()"
    and q: "imageFiles s' = splice1 (currentIndex s) (imageFiles s)"
    and c: "currentIndex s' = (if imageFiles s' = [] then 0 else currentIndex s mod length (imageFiles s'))"
    and f: "fs (world s') = fs w1"
    and t: "trace (world s') = trace w1 @ [Console Info (''Updated current index to '' @ m)]"
    by auto
  from postImageToFediverse_digest [OF run] obtain evs where e: "trace w1 = trace ?w0 @ evs"
    by blast
  have "trace ?w0 = trace (world s) @ [Console Info ''Preparing to post next image...'',
          Console Info (''Selected image: '' @ ?p)]" by (simp add: log_def)
  with e t have "emitted ?w0 w1 = evs"
    "emitted (world s) (world s') = Console Info ''Preparing to post next image...'' #
       Console Info (''Selected image: '' @ ?p) # evs @ [Console Info (''Updated current index to '' @ m)]"
    by (simp_all add: emitted_def)
  then have "emitted (world s) (world s') = Console Info ''Preparing to post next image...'' #
       Console Info (''Selected image: '' @ ?p) # emitted ?w0 w1
       @ [Console Info (''Updated current index to '' @ m)]"
    by (simp only:)
  with run r q c f show ?thesis by blast
qed

lemma postSelected_keeps_invariant:
  assumes "postSelected cfg s = (r, s')" and "currentIndex s < length (imageFiles s)"
    and "\<forall>f\<in>set (imageFiles s). regex_test f \<and> CHR ''/'' \<notin> set f"
  shows "((imageFiles s' = [] \<and> currentIndex s' = 0) \<or> currentIndex s' < length (imageFiles s'))
       \<and> (\<forall>f\<in>set (imageFiles s'). regex_test f \<and> CHR ''/'' \<notin> set f)"
proof -
  from postSelected_effect [OF assms(1,2)] have
    q: "imageFiles s' = splice1 (currentIndex s) (imageFiles s)"
    and c: "currentIndex s' = (if imageFiles s' = [] then 0 else currentIndex s mod length (imageFiles s'))"
    by blast+
  from q assms(3) set_splice1 [of "currentIndex s" "imageFiles s"]
  have "\<forall>f\<in>set (imageFiles s'). regex_test f \<and> CHR ''/'' \<notin> set f" by auto
  moreover from c have "(imageFiles s' = [] \<and> currentIndex s' = 0) \<or> currentIndex s' < length (imageFiles s')"
    by (cases "imageFiles s' = []") simp_all
  ultimately show ?thesis by blast
qed

lemma loadImageFiles_queue:
  assumes "loadImageFiles cfg s = (r, s')"
  shows "currentIndex s' = currentIndex s
       \<and> (imageFiles s' = imageFiles s
          \<or> imageFiles s' = filter regex_test (entries (imageFolder cfg) (fs (world s'))))"
  using loadImageFiles_effect [OF assms] by blast

lemma filtered_entries_ok:
  "\<forall>f\<in>set (filter regex_test (entries dir files)). regex_test f \<and> CHR ''/'' \<notin> set f"
  by (auto simp: set_entries)

lemma reach_invariant:
  assumes "reach cfg s"
  shows "((imageFiles s = [] \<and> currentIndex s = 0) \<or> currentIndex s < length (imageFiles s))
       \<and> (\<forall>f\<in>set (imageFiles s). regex_test f \<and> CHR ''/'' \<notin> set f)"
  using assms
proof (induction rule: reach.induct)
  case (init w)
  show ?case by simp
next
  case (start w s)
  from loadImageFiles_queue [OF start] have "currentIndex s = 0"
    "imageFiles s = [] \<or> imageFiles s = filter regex_test (entries (imageFolder cfg) (fs (world s)))"
    by simp_all
  then consider (none) "imageFiles s = []" "currentIndex s = 0"
    | (some) "imageFiles s \<noteq> []" "currentIndex s = 0"
        "imageFiles s = filter regex_test (entries (imageFolder cfg) (fs (world s)))"
    by blast
  then show ?case
  proof cases
    case none
    then show ?thesis by simp
  next
    case some
    have "\<forall>f\<in>set (imageFiles s). regex_test f \<and> CHR ''/'' \<notin> set f"
      by (subst some(3)) (rule filtered_entries_ok)
    moreover from some(1,2) have "currentIndex s < length (imageFiles s)" by simp
    ultimately show ?thesis by blast
  qed
next
  case (tick s s')
  from tick.hyps(2) show ?case
  proof (cases rule: postNextImage_cases)
    case skip
    with tick.IH reloaded_effect [of cfg s] have "imageFiles s' = []" "currentIndex s' = 0"
      by (simp_all add: slog_def)
    then show ?thesis by simp
  next
    case reload_post
    let ?t = "reloaded cfg s"
    from reload_post tick.IH reloaded_effect [of cfg s]
    have c: "currentIndex ?t = 0"
      and q: "imageFiles ?t = filter regex_test (entries (imageFolder cfg) (fs (world ?t)))"
      by simp_all
    from c reload_post(2) have "currentIndex ?t < length (imageFiles ?t)" by simp
    moreover have "\<forall>f\<in>set (imageFiles ?t). regex_test f \<and> CHR ''/'' \<notin> set f"
      by (subst q) (rule filtered_entries_ok)
    ultimately have "currentIndex ?t < length (imageFiles ?t)"
      "\<forall>f\<in>set (imageFiles ?t). regex_test f \<and> CHR ''/'' \<notin> set f" .
    with reload_post(3) show ?thesis by (rule postSelected_keeps_invariant)
  next
    case post
    let ?t = "slog ''Preparing to post next image...'' Info s"
    from post(1) tick.IH have "currentIndex ?t < length (imageFiles ?t)"
      "\<forall>f\<in>set (imageFiles ?t). regex_test f \<and> CHR ''/'' \<notin> set f"
      by (simp_all add: slog_def)
    with post(2) show ?thesis by (rule postSelected_keeps_invariant)
  qed
next
  case (outside s w)
  then show ?case by simp
qed

lemma ex_loaded_reach: "reach ex_cfg ex_loaded"
proof -
  have "loadImageFiles ex_cfg \<lparr>imageFiles = [], currentIndex = 0, world = ex_world\<rparr>
          = (Inr (), ex_loaded)"
    using loadImageFiles_returns [of ex_cfg ex_start]
    by (simp add: ex_loaded_def ex_start_def prod_eq_iff)
  then show ?thesis by (rule reach.start)
qed

lemma ex_loaded_queue: "imageFiles ex_loaded = [''a.jpg'', ''b.PNG'']" "currentIndex ex_loaded = 0"
  by (simp_all add: ex_loaded_def ex_defs run_defs ex_names del: regex_test.simps)

text \<open>
  Claim C3.  In every state the process reaches (after \<open>start\<close> and any number of
  ticks, whatever happened outside in between), either the queue is empty and the cursor
  is 0, or the cursor is an index into the queue.
\<close>

theorem cursor_stays_in_range:
  assumes "reach cfg s"
  shows "(imageFiles s = [] \<and> currentIndex s = 0) \<or> currentIndex s < length (imageFiles s)"
  using reach_invariant [OF assms] by blast

theorem cursor_stays_in_range_witness:
  "reach ex_cfg (snd (postNextImage ex_cfg ex_loaded))
   \<and> ((imageFiles (snd (postNextImage ex_cfg ex_loaded)) = []
         \<and> currentIndex (snd (postNextImage ex_cfg ex_loaded)) = 0)
       \<or> currentIndex (snd (postNextImage ex_cfg ex_loaded))
           < length (imageFiles (snd (postNextImage ex_cfg ex_loaded))))"
proof -
  have "fst (postNextImage ex_cfg ex_loaded) = Inr ()"
    using tick_post [OF prod.collapse [symmetric], where cfg = ex_cfg and s = ex_loaded]
    by (auto simp add: ex_loaded_queue)
  then have "postNextImage ex_cfg ex_loaded = (Inr (), snd (postNextImage ex_cfg ex_loaded))"
    by (simp add: prod_eq_iff)
  with ex_loaded_reach have r: "reach ex_cfg (snd (postNextImage ex_cfg ex_loaded))"
    by (rule reach.tick)
  from cursor_stays_in_range [OF r] r show ?thesis by blast
qed



subsection \<open>The load operation\<close>

lemma loadImageFiles_outcome:
  assumes "loadImageFiles cfg s = (r, s')"
  obtains
    (failed) e pre where "r = Inr ()" "currentIndex s' = currentIndex s"
      "list_ex scan_failed (emitted (world s) (world s'))" "imageFiles s' = imageFiles s"
      "emitted (world s) (world s')
         = pre @ [Console Error (''Error reading image folder: '' @ message e)]"
  | (loaded) "r = Inr ()" "currentIndex s' = currentIndex s"
      "\<not> list_ex scan_failed (emitted (world s) (world s'))"
      "Fs (Readdir (imageFolder cfg)) None \<in> set (emitted (world s) (world s'))"
      "imageFiles s' = filter regex_test (entries (imageFolder cfg) (fs (world s')))"
proof -
  from loadImageFiles_effect [OF assms] obtain evs out where
    r: "r = Inr ()" and c: "currentIndex s' = currentIndex s"
    and t: "trace (world s') = trace (world s) @
             Console Info ''Starting to load image files...'' # Fs (Access (imageFolder cfg)) out # evs"
    and d: "list_ex scan_failed (Fs (Access (imageFolder cfg)) out # evs)
                  \<and> imageFiles s' = imageFiles s
                  \<and> (\<exists>e pre. evs = pre @ [Console Error (''Error reading image folder: '' @ message e)])
               \<or> \<not> list_ex scan_failed (Fs (Access (imageFolder cfg)) out # evs)
                  \<and> Fs (Readdir (imageFolder cfg)) None \<in> set evs
                  \<and> imageFiles s' = filter regex_test (entries (imageFolder cfg) (fs (world s')))"
    by blast
  have e: "emitted (world s) (world s') =
      Console Info ''Starting to load image files...'' # Fs (Access (imageFolder cfg)) out # evs"
    using t by (rule emitted_append)
  from d show ?thesis
  proof
    assume a: "list_ex scan_failed (Fs (Access (imageFolder cfg)) out # evs)
                  \<and> imageFiles s' = imageFiles s
                  \<and> (\<exists>e pre. evs = pre @ [Console Error (''Error reading image folder: '' @ message e)])"
    then obtain x pre where p: "evs = pre @ [Console Error (''Error reading image folder: '' @ message x)]"
      by blast
    have "emitted (world s) (world s') =
        (Console Info ''Starting to load image files...'' # Fs (Access (imageFolder cfg)) out # pre)
          @ [Console Error (''Error reading image folder: '' @ message x)]"
      unfolding e p by simp
    moreover have "list_ex scan_failed (emitted (world s) (world s'))"
      unfolding e using a by simp
    ultimately show ?thesis using failed r c a by blast
  next
    assume a: "\<not> list_ex scan_failed (Fs (Access (imageFolder cfg)) out # evs)
                  \<and> Fs (Readdir (imageFolder cfg)) None \<in> set evs
                  \<and> imageFiles s' = filter regex_test (entries (imageFolder cfg) (fs (world s')))"
    have "\<not> list_ex scan_failed (emitted (world s) (world s'))"
      unfolding e using a by simp
    moreover have "Fs (Readdir (imageFolder cfg)) None \<in> set (emitted (world s) (world s'))"
      unfolding e using a by simp
    ultimately show ?thesis using loaded r c a by blast
  qed
qed

lemma ex_blocked_run:
  "emitted (world ex_blocked) (world (snd (loadImageFiles ex_cfg ex_blocked)))
     = [Console Info ''Starting to load image files...'',
        Fs (Access ''./images'') None, Fs (Access ''./posted'') None,
        Fs (Readdir ''./images'') (Some (fs_error ''EACCES'' ''./images'')),
        Console Error ''Error reading image folder: EACCES: ./images'']"
  "imageFiles (snd (loadImageFiles ex_cfg ex_blocked)) = []"
  "fs (world (snd (loadImageFiles ex_cfg ex_blocked))) = fs ex_world"
  by (simp_all add: ex_blocked_def ex_defs run_defs)

text \<open>
  Claim C10.  When a file-system error occurs during the load (an existence check that
  fails for another reason than absence, a failed directory creation, a failed
  listing), the load still returns normally, the queue and the cursor are what they
  were, and the last thing the load does is to print the error line.
\<close>

theorem load_failure_is_contained:
  assumes "loadImageFiles cfg s = (r, s')"
    and "list_ex scan_failed (emitted (world s) (world s'))"
  shows "r = Inr () \<and> imageFiles s' = imageFiles s \<and> currentIndex s' = currentIndex s
       \<and> (\<exists>e pre. emitted (world s) (world s')
              = pre @ [Console Error (''Error reading image folder: '' @ message e)])"
  using assms(1)
proof (cases rule: loadImageFiles_outcome)
  case (failed e pre)
  then show ?thesis by blast
next
  case loaded
  with assms(2) show ?thesis by blast
qed

theorem load_failure_is_contained_witness:
  "list_ex scan_failed (emitted (world ex_blocked) (world (snd (loadImageFiles ex_cfg ex_blocked))))
   \<and> fst (loadImageFiles ex_cfg ex_blocked) = Inr ()
   \<and> imageFiles (snd (loadImageFiles ex_cfg ex_blocked)) = imageFiles ex_blocked
   \<and> currentIndex (snd (loadImageFiles ex_cfg ex_blocked)) = currentIndex ex_blocked"
proof -
  have h: "list_ex scan_failed
     (emitted (world ex_blocked) (world (snd (loadImageFiles ex_cfg ex_blocked))))"
    by (simp add: ex_blocked_run fs_error_def)
  from load_failure_is_contained [OF prod.collapse [symmetric] h] h show ?thesis by blast
qed

text \<open>
  Claim C9, as it stands, fails: when the load is called with an empty queue and the
  listing cannot be obtained, the queue is not replaced by the filtered content of the
  directory; it stays empty.
\<close>

theorem load_replaces_queue_counterexample:
  "reach ex_cfg ex_blocked \<and> imageFiles ex_blocked = []
   \<and> imageFiles (snd (loadImageFiles ex_cfg ex_blocked)) = []
   \<and> filter regex_test (entries (imageFolder ex_cfg)
         (fs (world (snd (loadImageFiles ex_cfg ex_blocked))))) = [''a.jpg'', ''b.PNG'']"
proof -
  have "reach ex_cfg ex_blocked" unfolding ex_blocked_def by (rule reach.init)
  moreover have "imageFiles ex_blocked = []" by (simp add: ex_blocked_def)
  moreover have "filter regex_test (entries (imageFolder ex_cfg)
         (fs (world (snd (loadImageFiles ex_cfg ex_blocked))))) = [''a.jpg'', ''b.PNG'']"
    unfolding ex_blocked_run
    by (simp add: ex_defs entries_def child_name_def ex_names del: regex_test.simps)
  ultimately show ?thesis using ex_blocked_run(2) by blast
qed

text \<open>
  Claim C9, amended.  When the load is called with the queue empty, in a state the
  process reaches, and no file-system error occurs during the load, the listing is
  obtained, the queue becomes the filtered listing, and the cursor is 0 afterwards.
  (The load never writes the cursor; it is 0 because the queue was empty.)
\<close>

theorem load_replaces_queue:
  assumes "reach cfg s" and "imageFiles s = []" and "loadImageFiles cfg s = (r, s')"
    and "\<not> list_ex scan_failed (emitted (world s) (world s'))"
  shows "Fs (Readdir (imageFolder cfg)) None \<in> set (emitted (world s) (world s'))
       \<and> imageFiles s' = filter regex_test (entries (imageFolder cfg) (fs (world s')))
       \<and> currentIndex s' = 0"
proof -
  from reach_invariant [OF assms(1)] assms(2) have "currentIndex s = 0" by simp
  with assms(3,4) show ?thesis by (cases rule: loadImageFiles_outcome) simp_all
qed

theorem load_replaces_queue_witness:
  "reach ex_cfg ex_start \<and> imageFiles ex_start = []
   \<and> \<not> list_ex scan_failed (emitted (world ex_start) (world (snd (loadImageFiles ex_cfg ex_start))))
   \<and> imageFiles (snd (loadImageFiles ex_cfg ex_start)) = [''a.jpg'', ''b.PNG'']
   \<and> currentIndex (snd (loadImageFiles ex_cfg ex_start)) = 0"
proof -
  have r: "reach ex_cfg ex_start" unfolding ex_start_def by (rule reach.init)
  have e: "imageFiles ex_start = []" by (simp add: ex_start_def)
  have n: "\<not> list_ex scan_failed
     (emitted (world ex_start) (world (snd (loadImageFiles ex_cfg ex_start))))"
    by (simp add: ex_defs run_defs ex_names del: regex_test.simps)
  from load_replaces_queue [OF r e prod.collapse [symmetric] n] r e n
  show ?thesis using ex_loaded_queue by (simp add: ex_loaded_def)
qed

subsection \<open>Ticks on an empty queue\<close>















subsection \<open>Archiving\<close>

lemma error_report_no_request [simp]: "Http req reply \<notin> set (error_report p e)"
  by (auto simp: error_report_def split: option.splits)

lemma error_report_no_fs [simp]: "Fs c out \<notin> set (error_report p e)"
  by (auto simp: error_report_def split: option.splits)










subsection \<open>The media identifier\<close>






subsection \<open>A refused move\<close>








end
